theory Spec2Isabelle
  imports Complex_Main "HOL-Library.Word"
begin

section \<open>Numbers of type double\<close>

text \<open>
  The C++ type \<^verbatim>\<open>double\<close> of both nodes. A finite value is taken as the real number it
  stands for (rounding and overflow are left out, and zero carries no sign: it stands for
  \<^verbatim>\<open>+0.0\<close>, the only zero a square root of a sum of squares yields); the two infinities
  and the not-a-number value are kept, since a division by zero produces them and every
  comparison with not-a-number is false.
\<close>

datatype double = Finite real | PosInf | NegInf | NaN

text \<open>The operator \<^verbatim>\<open><\<close> on doubles.\<close>

fun dless :: "double \<Rightarrow> double \<Rightarrow> bool" where
  "dless (Finite x) (Finite y) = (x < y)"
| "dless (Finite x) PosInf = True"
| "dless NegInf (Finite y) = True"
| "dless NegInf PosInf = True"
| "dless _ _ = False"

fun dneg :: "double \<Rightarrow> double" where
  "dneg (Finite x) = Finite (- x)"
| "dneg PosInf = NegInf"
| "dneg NegInf = PosInf"
| "dneg NaN = NaN"

fun dadd :: "double \<Rightarrow> double \<Rightarrow> double" where
  "dadd (Finite x) (Finite y) = Finite (x + y)"
| "dadd NaN _ = NaN"
| "dadd _ NaN = NaN"
| "dadd PosInf NegInf = NaN"
| "dadd NegInf PosInf = NaN"
| "dadd PosInf _ = PosInf"
| "dadd _ PosInf = PosInf"
| "dadd NegInf _ = NegInf"
| "dadd _ NegInf = NegInf"

definition dsub :: "double \<Rightarrow> double \<Rightarrow> double" where
  "dsub a b = dadd a (dneg b)"

fun dmul :: "double \<Rightarrow> double \<Rightarrow> double" where
  "dmul (Finite x) (Finite y) = Finite (x * y)"
| "dmul NaN _ = NaN"
| "dmul _ NaN = NaN"
| "dmul (Finite x) PosInf = (if x = 0 then NaN else if 0 < x then PosInf else NegInf)"
| "dmul (Finite x) NegInf = (if x = 0 then NaN else if 0 < x then NegInf else PosInf)"
| "dmul PosInf (Finite y) = (if y = 0 then NaN else if 0 < y then PosInf else NegInf)"
| "dmul NegInf (Finite y) = (if y = 0 then NaN else if 0 < y then NegInf else PosInf)"
| "dmul PosInf PosInf = PosInf"
| "dmul NegInf NegInf = PosInf"
| "dmul PosInf NegInf = NegInf"
| "dmul NegInf PosInf = NegInf"

fun ddiv :: "double \<Rightarrow> double \<Rightarrow> double" where
  "ddiv (Finite x) (Finite y) =
     (if y = 0 then (if x = 0 then NaN else if 0 < x then PosInf else NegInf)
      else Finite (x / y))"
| "ddiv NaN _ = NaN"
| "ddiv _ NaN = NaN"
| "ddiv (Finite x) PosInf = Finite 0"
| "ddiv (Finite x) NegInf = Finite 0"
| "ddiv PosInf (Finite y) = (if 0 \<le> y then PosInf else NegInf)"
| "ddiv NegInf (Finite y) = (if 0 \<le> y then NegInf else PosInf)"
| "ddiv _ _ = NaN"

fun dsqrt :: "double \<Rightarrow> double" where
  "dsqrt (Finite x) = (if x < 0 then NaN else Finite (sqrt x))"
| "dsqrt PosInf = PosInf"
| "dsqrt NegInf = NaN"
| "dsqrt NaN = NaN"

text \<open>
  \<^verbatim>\<open>std::max(a, b)\<close> is \<^verbatim>\<open>(a < b) ? b : a\<close> and \<^verbatim>\<open>std::min(a, b)\<close> is
  \<^verbatim>\<open>(b < a) ? b : a\<close>: with a not-a-number argument the first argument comes back.
\<close>

definition std_max :: "double \<Rightarrow> double \<Rightarrow> double" where
  "std_max a b = (if dless a b then b else a)"

definition std_min :: "double \<Rightarrow> double \<Rightarrow> double" where
  "std_min a b = (if dless b a then b else a)"

section \<open>The move action node\<close>

subsection \<open>Messages\<close>

text \<open>
  The fields \<^verbatim>\<open>x\<close>, \<^verbatim>\<open>y\<close>, \<^verbatim>\<open>z\<close>, \<^verbatim>\<open>w\<close> of a position and of an orientation are
  written \<open>pos_x\<close>, ..., \<open>ori_w\<close>, and a member \<^verbatim>\<open>name_\<close> of a class is written
  \<open>name\<close>.
\<close>

record Point =
  pos_x :: double
  pos_y :: double
  pos_z :: double

record Quaternion =
  ori_x :: double
  ori_y :: double
  ori_z :: double
  ori_w :: double

record Pose =
  position :: Point
  orientation :: Quaternion

record Header =
  frame_id :: string
  stamp :: nat

record PoseStamped =
  header :: Header
  pose :: Pose

text \<open>
  Modelled from the spec: the default constructors of the message types
  (\<^verbatim>\<open>geometry_msgs::msg::Pose\<close>, \<^verbatim>\<open>PoseStamped\<close>) are declared outside this
  repository. A default-constructed pose is the origin pose of the spec's design notes:
  position (0, 0, 0), the identity orientation, an empty frame and a zero time stamp.
\<close>

definition default_Pose :: Pose where
  "default_Pose =
     \<lparr>position = \<lparr>pos_x = Finite 0, pos_y = Finite 0, pos_z = Finite 0\<rparr>,
      orientation = \<lparr>ori_x = Finite 0, ori_y = Finite 0, ori_z = Finite 0, ori_w = Finite 1\<rparr>\<rparr>"

definition default_PoseStamped :: PoseStamped where
  "default_PoseStamped = \<lparr>header = \<lparr>frame_id = [], stamp = 0\<rparr>, pose = default_Pose\<rparr>"

subsection \<open>What the node sends out\<close>

text \<open>
  The calls a tick makes on its host and on the navigation client, in the order it makes
  them: \<^verbatim>\<open>send_feedback\<close>, \<^verbatim>\<open>finish\<close>, \<^verbatim>\<open>async_send_goal\<close> (called with the goal
  only) and the log lines. The distance log carries its number, not its text.
\<close>

datatype event =
    SendFeedback double string
  | Finish bool double string
  | AsyncSendGoal PoseStamped
  | LogInfo string
  | LogDistance double

subsection \<open>The node\<close>

record MoveAction =
  waypoints :: "string \<rightharpoonup> PoseStamped"
  current_pos :: Pose
  goal_pos :: PoseStamped
  navigation_goal :: PoseStamped
  dist_to_move :: double
  status :: int

definition wp_at :: "nat \<Rightarrow> real \<Rightarrow> real \<Rightarrow> PoseStamped" where
  "wp_at t a b =
     \<lparr>header = \<lparr>frame_id = ''/map'', stamp = t\<rparr>,
      pose = \<lparr>position = \<lparr>pos_x = Finite a, pos_y = Finite b, pos_z = Finite 0\<rparr>,
              orientation = \<lparr>ori_x = Finite 0, ori_y = Finite 0, ori_z = Finite 0, ori_w = Finite 1\<rparr>\<rparr>\<rparr>"

text \<open>
  The constructor. \<open>t\<close> is what \<^verbatim>\<open>now()\<close> answers; \<open>d\<close> is the value the member
  \<^verbatim>\<open>dist_to_move\<close> happens to hold, since the constructor does not initialise it.
\<close>

definition MoveAction_init :: "nat \<Rightarrow> double \<Rightarrow> MoveAction" where
  "MoveAction_init t d =
     \<lparr>waypoints =
        [''wp4'' \<mapsto> wp_at t (-7) (3/2),
         ''wp1'' \<mapsto> wp_at t 6 2,
         ''wp3'' \<mapsto> wp_at t (-3) (-8),
         ''wp2'' \<mapsto> wp_at t 7 (-5),
         ''wp_control'' \<mapsto> wp_at t 2 2],
      current_pos = default_Pose,
      goal_pos = default_PoseStamped,
      navigation_goal = default_PoseStamped,
      dist_to_move = d,
      status = 0\<rparr>"

definition current_pos_callback :: "Pose \<Rightarrow> MoveAction \<Rightarrow> MoveAction" where
  "current_pos_callback msg s = s\<lparr>current_pos := msg\<rparr>"

definition getDistance :: "Pose \<Rightarrow> Pose \<Rightarrow> double" where
  "getDistance pos1 pos2 =
     dsqrt (dadd
       (dmul (dsub (pos_x (position pos1)) (pos_x (position pos2)))
             (dsub (pos_x (position pos1)) (pos_x (position pos2))))
       (dmul (dsub (pos_y (position pos1)) (pos_y (position pos2)))
             (dsub (pos_y (position pos1)) (pos_y (position pos2)))))"

text \<open>
  The feedback callback built in the first tick. It captures \<^verbatim>\<open>this\<close>, so it divides by
  the member \<^verbatim>\<open>dist_to_move\<close> as it is when the callback runs; \<open>r\<close> is
  \<^verbatim>\<open>feedback->distance_remaining\<close>. The tick stores it in \<^verbatim>\<open>send_goal_options\<close> and
  sends the goal without these options, so the navigation client never runs it.
\<close>

definition feedback_callback :: "MoveAction \<Rightarrow> double \<Rightarrow> event" where
  "feedback_callback s r =
     SendFeedback
       (std_min (Finite 1) (std_max (Finite 0) (dsub (Finite 1) (ddiv r (dist_to_move s)))))
       ''Move running''"

text \<open>
  The loop that waits for the navigation server. The list holds the answers of the
  successive calls of \<^verbatim>\<open>wait_for_action_server\<close>; the loop logs, asks, and leaves at the
  first positive answer. The result is the lines logged and whether the loop has ended:
  with negative answers only it is still running, having logged once more and waiting
  for the answer of the call that follows.
\<close>

fun wait_loop :: "bool list \<Rightarrow> event list \<times> bool" where
  "wait_loop [] = ([LogInfo ''Waiting for navigation action server...''], False)"
| "wait_loop (ready # rest) =
     (if ready then ([LogInfo ''Waiting for navigation action server...''], True)
      else (case wait_loop rest of
              (logs, ended) \<Rightarrow> (LogInfo ''Waiting for navigation action server...'' # logs, ended)))"

text \<open>Why a tick has not returned.\<close>

datatype fault =
    ServerNeverReady   \<comment> \<open>the waiting loop has not ended\<close>
  | ArgumentsTooShort  \<comment> \<open>\<^verbatim>\<open>get_arguments()[2]\<close> read past the end: undefined behaviour\<close>

text \<open>
  \<^verbatim>\<open>waypoints[k]\<close> on a \<^verbatim>\<open>std::map\<close>: a missing key is inserted with a
  default-constructed value, which is the value read.
\<close>

definition map_index :: "(string \<rightharpoonup> PoseStamped) \<Rightarrow> string \<Rightarrow> (string \<rightharpoonup> PoseStamped) \<times> PoseStamped" where
  "map_index m k =
     (case m k of
        Some v \<Rightarrow> (m, v)
      | None \<Rightarrow> (m(k \<mapsto> default_PoseStamped), default_PoseStamped))"

text \<open>
  One tick. \<open>answers\<close> are the navigation server's readiness answers of this tick, \<open>args\<close>
  is what \<^verbatim>\<open>get_arguments()\<close> returns. The result is the node after the tick, what the
  tick has sent, and \<open>None\<close> when the tick has returned; otherwise the fault at which it
  stands, with the node and the output as they are at that point. The member
  \<^verbatim>\<open>navigation_goal_\<close> is kept as its field \<^verbatim>\<open>pose\<close>.
\<close>

definition do_work :: "bool list \<Rightarrow> string list \<Rightarrow> MoveAction \<Rightarrow> MoveAction \<times> event list \<times> fault option" where
  "do_work answers args s =
     (if status s = 0 then
        (case wait_loop answers of
           (waiting, ended) \<Rightarrow>
             if \<not> ended then
               (s, [SendFeedback (Finite 0) ''Move starting''] @ waiting, Some ServerNeverReady)
             else if length args \<le> 2 then
               (s, [SendFeedback (Finite 0) ''Move starting''] @ waiting @
                   [LogInfo ''Navigation action server ready''],
                Some ArgumentsTooShort)
             else
               let wp_to_navigate = args ! 2;
                   (wps, goal) = map_index (waypoints s) wp_to_navigate;
                   d = getDistance (pose goal) (current_pos s)
               in (s\<lparr>waypoints := wps, goal_pos := goal, navigation_goal := goal,
                     dist_to_move := d, status := 1\<rparr>,
                   [SendFeedback (Finite 0) ''Move starting''] @ waiting @
                   [LogInfo ''Navigation action server ready'',
                    LogInfo (''Start navigation to ['' @ wp_to_navigate @ '']''),
                    AsyncSendGoal goal,
                    LogInfo ''Goal sent to navigation action server''],
                   None))
      else if status s = 1 then
        (let d = getDistance (pose (goal_pos s)) (current_pos s)
         in (s\<lparr>dist_to_move := d, status := (if dless d (Finite (3/10)) then 2 else 1)\<rparr>,
             [LogDistance d], None))
      else if status s = 2 then
        (s\<lparr>status := 0\<rparr>,
         [LogInfo ''Goal reached!'', Finish True (Finite 1) ''Move completed''], None)
      else (s, [], None))"

text \<open>
  What reaches the node: a tick of the host, a pose sample of the odometry subscription,
  or a feedback message of the navigation server. The goal was sent without a feedback
  callback, so a feedback message calls nothing in the node.
\<close>

datatype input =
    Tick "bool list" "string list"
  | Odom Pose
  | NavFeedback double

fun react :: "MoveAction \<Rightarrow> input \<Rightarrow> MoveAction \<times> event list \<times> fault option" where
  "react s (Tick answers args) = do_work answers args s"
| "react s (Odom msg) = (current_pos_callback msg s, [], None)"
| "react s (NavFeedback r) = (s, [], None)"

text \<open>
  A run: the inputs one after the other, up to the first that does not return. The
  result is the node and all that was sent up to there, and the fault, if any.
\<close>

fun run :: "MoveAction \<Rightarrow> input list \<Rightarrow> MoveAction \<times> event list \<times> fault option" where
  "run s [] = (s, [], None)"
| "run s (i # rest) =
     (case react s i of
        (s', es, Some f) \<Rightarrow> (s', es, Some f)
      | (s', es, None) \<Rightarrow>
          (case run s' rest of (s'', es', f) \<Rightarrow> (s'', es @ es', f)))"



subsection \<open>A run for the examples\<close>

text \<open>
  The robot is at (2, 7) when the action "move r2d2 wp1 wp_control" starts (the target
  is (2, 2), five units away); the server is ready at the second attempt; the robot is
  seen at (2, 4) at the next tick.
\<close>

definition approach :: "input list" where
  "approach =
     [Odom (pose (wp_at 0 2 7)),
      Tick [False, True] [''r2d2'', ''wp1'', ''wp_control''],
      Odom (pose (wp_at 0 2 4)),
      Tick [] [''r2d2'', ''wp1'', ''wp_control'']]"

text \<open>Then the robot is seen on the target, and two more ticks follow.\<close>

definition arrival :: "input list" where
  "arrival =
     [Odom (pose (wp_at 0 2 2)),
      Tick [] [''r2d2'', ''wp1'', ''wp_control''],
      Tick [] [''r2d2'', ''wp1'', ''wp_control'']]"

section \<open>The patrolling controller node\<close>

subsection \<open>The collaborators\<close>

type_synonym Plan = "string list"

text \<open>
  Modelled from the spec: the Knowledge Store (\<^verbatim>\<open>plansys2::ProblemExpertClient\<close>) is a
  collaborator outside this repository. It holds instances, ground facts and one goal,
  with the operations \<^verbatim>\<open>addInstance\<close>, \<^verbatim>\<open>addPredicate\<close>, \<^verbatim>\<open>removePredicate\<close>,
  \<^verbatim>\<open>setGoal\<close> and \<^verbatim>\<open>getGoal\<close> of the spec's interface table. Facts and goals are
  kept as the texts the controller passes.
\<close>

record Problem =
  instances :: "(string \<times> string) list"
  predicates :: "string list"
  goal :: string

definition empty_Problem :: Problem where
  "empty_Problem = \<lparr>instances = [], predicates = [], goal = []\<rparr>"

definition addInstance :: "string \<Rightarrow> string \<Rightarrow> Problem \<Rightarrow> Problem" where
  "addInstance name type p = p\<lparr>instances := instances p @ [(name, type)]\<rparr>"

definition addPredicate :: "string \<Rightarrow> Problem \<Rightarrow> Problem" where
  "addPredicate f p = (if f \<in> set (predicates p) then p else p\<lparr>predicates := predicates p @ [f]\<rparr>)"

definition removePredicate :: "string \<Rightarrow> Problem \<Rightarrow> Problem" where
  "removePredicate f p = p\<lparr>predicates := removeAll f (predicates p)\<rparr>"

definition setGoal :: "string \<Rightarrow> Problem \<Rightarrow> Problem" where
  "setGoal g p = p\<lparr>goal := g\<rparr>"

definition getGoal :: "Problem \<Rightarrow> string" where
  "getGoal p = goal p"

text \<open>
  The status of a sub-action in the engine's feedback. The controller names
  \<^verbatim>\<open>FAILED\<close> only; the other constructors stand for the remaining values of the field.
  The field \<^verbatim>\<open>status\<close> of the message is written \<open>exec_status\<close>.
\<close>

datatype ExecStatus = NOT_EXECUTED | EXECUTING | FAILED | SUCCEEDED | CANCELLED

record ActionExecutionInfo =
  action :: string
  completion :: double
  exec_status :: ExecStatus
  message_status :: string

record PlanResult =
  success :: bool
  result_message :: string

text \<open>
  Modelled from the spec: the Execution Engine (\<^verbatim>\<open>plansys2::ExecutorClient\<close>) is a
  collaborator outside this repository, with the operations \<^verbatim>\<open>startPlanExecution\<close>,
  \<^verbatim>\<open>isExecuting\<close> (the source's \<^verbatim>\<open>execute_and_check_plan\<close>), \<^verbatim>\<open>getFeedback\<close> and
  \<^verbatim>\<open>getResult\<close> of the spec's interface table. The engine counts the plans it has taken
  and not yet ended (\<open>in_flight\<close>); it does not refuse a plan because it is busy, so that
  the count shows what its caller does. A plan taken clears the last result; a plan that
  ends leaves its result.
\<close>

record Executor =
  in_flight :: nat
  result :: "PlanResult option"
  feedback :: "ActionExecutionInfo list"

definition idle_Executor :: Executor where
  "idle_Executor = \<lparr>in_flight = 0, result = None, feedback = []\<rparr>"

definition execute_and_check_plan :: "Executor \<Rightarrow> bool" where
  "execute_and_check_plan e = (0 < in_flight e)"

definition getResult :: "Executor \<Rightarrow> PlanResult option" where
  "getResult e = result e"

definition getFeedBack :: "Executor \<Rightarrow> ActionExecutionInfo list" where
  "getFeedBack e = feedback e"

text \<open>\<open>accepted\<close>: whether the engine takes the plan, which is what the call returns.\<close>

definition start_plan_execution :: "bool \<Rightarrow> Plan \<Rightarrow> Executor \<Rightarrow> Executor \<times> bool" where
  "start_plan_execution accepted plan e =
     (if accepted then (e\<lparr>in_flight := in_flight e + 1, result := None, feedback := []\<rparr>, True)
      else (e, False))"

text \<open>A plan in flight ends with a result; with no plan in flight nothing ends.\<close>

definition plan_ends :: "PlanResult \<Rightarrow> Executor \<Rightarrow> Executor" where
  "plan_ends r e = (if 0 < in_flight e then e\<lparr>in_flight := in_flight e - 1, result := Some r\<rparr> else e)"

subsection \<open>What the controller sends out\<close>

text \<open>
  A line written to \<^verbatim>\<open>std::cout\<close> is a list of pieces: a text, a number, or the text
  \<^verbatim>\<open>parser::pddl::toString\<close> makes of a goal. The calls of a tick are listed in the
  order the tick makes them; \<open>GetPlan\<close> carries the snapshot of the problem the planner is
  given (the domain does not change and is left out).
\<close>

datatype piece = Str string | Num double | GoalText string

datatype call =
    Cout "piece list"
  | SetGoal string
  | RemovePredicate string
  | GetPlan Problem
  | StartPlanExecution Plan
  | LogReceived "32 word"

subsection \<open>The node\<close>

datatype StateType = STARTING | PATROL_FINISHED | GO_BACK

record PatrollingController =
  state :: StateType
  received_value :: "32 word"
  problem_expert :: Problem
  executor_client :: Executor

definition init_knowledge :: "Problem \<Rightarrow> Problem" where
  "init_knowledge p =
     (addPredicate ''(connected wp3 wp2)'' \<circ>
      addPredicate ''(connected wp4 wp3)'' \<circ>
      addPredicate ''(connected wp4 wp1)'' \<circ>
      addPredicate ''(connected wp3 wp4)'' \<circ>
      addPredicate ''(connected wp2 wp3)'' \<circ>
      addPredicate ''(connected wp1 wp2)'' \<circ>
      addPredicate ''(connected wp_control wp1)'' \<circ>
      addPredicate ''(robot_at r2d2 wp_control)'' \<circ>
      addInstance ''wp4'' ''waypoint'' \<circ>
      addInstance ''wp3'' ''waypoint'' \<circ>
      addInstance ''wp2'' ''waypoint'' \<circ>
      addInstance ''wp1'' ''waypoint'' \<circ>
      addInstance ''wp_control'' ''waypoint'' \<circ>
      addInstance ''r2d2'' ''robot'') p"

text \<open>
  The node after its constructor and \<^verbatim>\<open>init()\<close>, on a store \<open>p\<close> and an engine \<open>e\<close>:
  the state is \<^verbatim>\<open>STARTING\<close> and the selector is -1.
\<close>

definition init :: "Problem \<Rightarrow> Executor \<Rightarrow> PatrollingController" where
  "init p e =
     \<lparr>state = STARTING, received_value = - 1,
      problem_expert = init_knowledge p, executor_client = e\<rparr>"

definition subscriberCallback :: "32 word \<Rightarrow> PatrollingController \<Rightarrow> PatrollingController \<times> call list" where
  "subscriberCallback v c = (c\<lparr>received_value := v\<rparr>, [LogReceived v])"

definition patrol_goal :: string where
  "patrol_goal =
     ''(and (robot_at r2d2 wp4) (patrolled wp1) (patrolled wp2) (patrolled wp3) (patrolled wp4))''"

text \<open>The progress line of a tick: one bracket per sub-action, then the end of the line.\<close>

definition progress_line :: "ActionExecutionInfo list \<Rightarrow> call" where
  "progress_line fb =
     Cout (concat (map (\<lambda>a. [Str ''['', Str (action a), Str '' '',
                               Num (dmul (completion a) (Finite 100)), Str ''%]'']) fb))"

text \<open>The loop over the feedback that reports the failed sub-actions.\<close>

definition failed_lines :: "ActionExecutionInfo list \<Rightarrow> call list" where
  "failed_lines fb =
     map (\<lambda>a. Cout [Str ''['', Str (action a), Str ''] finished with error: '',
                     Str (message_status a)])
       (filter (\<lambda>a. exec_status a = FAILED) fb)"

text \<open>
  "Compute the plan" and "Execute the plan" of \<^verbatim>\<open>STARTING\<close> and of the success branch of
  \<^verbatim>\<open>PATROL_FINISHED\<close>: with no plan the tick writes a line and ends; with a plan it is
  submitted, and the state becomes \<open>nxt\<close> when the submission is taken. \<open>plan_reply\<close> is
  what \<^verbatim>\<open>getPlan\<close> answers in this tick.
\<close>

definition plan_and_start ::
  "Plan option \<Rightarrow> bool \<Rightarrow> StateType \<Rightarrow> PatrollingController \<Rightarrow> PatrollingController \<times> call list" where
  "plan_and_start plan_reply accepted nxt c =
     (case plan_reply of
        None \<Rightarrow>
          (c, [GetPlan (problem_expert c),
               Cout [Str ''Could not find plan to reach goal '',
                     GoalText (getGoal (problem_expert c))]])
      | Some plan \<Rightarrow>
          (case start_plan_execution accepted plan (executor_client c) of
             (e, ok) \<Rightarrow>
               (c\<lparr>executor_client := e, state := (if ok then nxt else state c)\<rparr>,
                [GetPlan (problem_expert c), StartPlanExecution plan])))"

text \<open>
  "Replan" of the two failure branches: as above, but the answer of the submission is
  not looked at and the state is not touched.
\<close>

definition replan ::
  "Plan option \<Rightarrow> bool \<Rightarrow> PatrollingController \<Rightarrow> PatrollingController \<times> call list" where
  "replan plan_reply accepted c =
     (case plan_reply of
        None \<Rightarrow>
          (c, [GetPlan (problem_expert c),
               Cout [Str ''Unsuccessful replan attempt to reach goal '',
                     GoalText (getGoal (problem_expert c))]])
      | Some plan \<Rightarrow>
          (c\<lparr>executor_client := fst (start_plan_execution accepted plan (executor_client c))\<rparr>,
           [GetPlan (problem_expert c), StartPlanExecution plan]))"

text \<open>The switch on the selector in the success branch of \<^verbatim>\<open>PATROL_FINISHED\<close>.\<close>

definition choose_goal :: "32 word \<Rightarrow> Problem \<Rightarrow> Problem \<times> call list" where
  "choose_goal v p =
     (if v = 0 then (setGoal ''(and(robot_at r2d2 wp1))'' p, [SetGoal ''(and(robot_at r2d2 wp1))''])
      else if v = 1 then (setGoal ''(and(robot_at r2d2 wp2))'' p, [SetGoal ''(and(robot_at r2d2 wp2))''])
      else if v = 2 then (setGoal ''(and(robot_at r2d2 wp3))'' p, [SetGoal ''(and(robot_at r2d2 wp3))''])
      else if v = 3 then (setGoal ''(and(robot_at r2d2 wp4))'' p, [SetGoal ''(and(robot_at r2d2 wp4))''])
      else (p, [Cout [Str ''Invalid state :('']]))"

text \<open>The switch on the selector in the success branch of \<^verbatim>\<open>GO_BACK\<close>.\<close>

definition drop_robot_at :: "32 word \<Rightarrow> Problem \<Rightarrow> Problem \<times> call list" where
  "drop_robot_at v p =
     (if v = 0 then (removePredicate ''(robot_at r2d2 wp1)'' p, [RemovePredicate ''(robot_at r2d2 wp1)''])
      else if v = 1 then (removePredicate ''(robot_at r2d2 wp2)'' p, [RemovePredicate ''(robot_at r2d2 wp2)''])
      else if v = 2 then (removePredicate ''(robot_at r2d2 wp3)'' p, [RemovePredicate ''(robot_at r2d2 wp3)''])
      else if v = 3 then (removePredicate ''(robot_at r2d2 wp4)'' p, [RemovePredicate ''(robot_at r2d2 wp4)''])
      else (p, [Cout [Str ''Invalid state :('']]))"

text \<open>"Cleaning up": the four facts removed when the patrol plan has succeeded.\<close>

definition clean_up :: "Problem \<Rightarrow> Problem \<times> call list" where
  "clean_up p =
     ((removePredicate ''(patrolled wp4)'' \<circ> removePredicate ''(patrolled wp3)'' \<circ>
       removePredicate ''(patrolled wp2)'' \<circ> removePredicate ''(patrolled wp1)'') p,
      [RemovePredicate ''(patrolled wp1)'', RemovePredicate ''(patrolled wp2)'',
       RemovePredicate ''(patrolled wp3)'', RemovePredicate ''(patrolled wp4)''])"

text \<open>
  One tick. \<open>plan_reply\<close> is what the planner answers if it is asked in this tick,
  \<open>accepted\<close> what the engine answers if a plan is submitted in this tick.
\<close>

definition step :: "Plan option \<Rightarrow> bool \<Rightarrow> PatrollingController \<Rightarrow> PatrollingController \<times> call list" where
  "step plan_reply accepted c =
     (case state c of
        STARTING \<Rightarrow>
          (case plan_and_start plan_reply accepted PATROL_FINISHED
                  (c\<lparr>problem_expert := setGoal patrol_goal (problem_expert c)\<rparr>) of
             (c', calls) \<Rightarrow> (c', SetGoal patrol_goal # calls))
      | PATROL_FINISHED \<Rightarrow>
          (if execute_and_check_plan (executor_client c) then
             (c, [progress_line (getFeedBack (executor_client c))])
           else
             (case getResult (executor_client c) of
                None \<Rightarrow> (c, [progress_line (getFeedBack (executor_client c))])
              | Some r \<Rightarrow>
                  if success r then
                    (case clean_up (problem_expert c) of
                       (p1, removed) \<Rightarrow>
                         (case choose_goal (received_value c) p1 of
                            (p2, chosen) \<Rightarrow>
                              (case plan_and_start plan_reply accepted GO_BACK
                                      (c\<lparr>problem_expert := p2\<rparr>) of
                                 (c', calls) \<Rightarrow>
                                   (c', [progress_line (getFeedBack (executor_client c)),
                                         Cout [Str ''Successful finished '']]
                                        @ removed @ chosen @ calls))))
                  else
                    (case replan plan_reply accepted c of
                       (c', calls) \<Rightarrow>
                         (c', progress_line (getFeedBack (executor_client c))
                              # failed_lines (getFeedBack (executor_client c)) @ calls))))
      | GO_BACK \<Rightarrow>
          (if execute_and_check_plan (executor_client c) then
             (c, [progress_line (getFeedBack (executor_client c))])
           else
             (case getResult (executor_client c) of
                None \<Rightarrow> (c, [progress_line (getFeedBack (executor_client c))])
              | Some r \<Rightarrow>
                  if success r then
                    (case drop_robot_at (received_value c) (problem_expert c) of
                       (p1, dropped) \<Rightarrow>
                         (c\<lparr>problem_expert := p1\<rparr>,
                          [progress_line (getFeedBack (executor_client c)),
                           Cout [Str ''Successful finished '']] @ dropped))
                  else
                    (case replan plan_reply accepted c of
                       (c', calls) \<Rightarrow>
                         (c', progress_line (getFeedBack (executor_client c))
                              # failed_lines (getFeedBack (executor_client c)) @ calls)))))"

text \<open>
  What reaches the controller: a tick of its loop, a message of the selector feed, and
  what the engine does between ticks (a plan ends, the feedback changes).
\<close>

datatype cinput =
    Step "Plan option" bool
  | Selector "32 word"
  | PlanEnds PlanResult
  | EngineFeedback "ActionExecutionInfo list"

fun creact :: "PatrollingController \<Rightarrow> cinput \<Rightarrow> PatrollingController \<times> call list" where
  "creact c (Step plan_reply accepted) = step plan_reply accepted c"
| "creact c (Selector v) = subscriberCallback v c"
| "creact c (PlanEnds r) = (c\<lparr>executor_client := plan_ends r (executor_client c)\<rparr>, [])"
| "creact c (EngineFeedback fb) = (c\<lparr>executor_client := (executor_client c)\<lparr>feedback := fb\<rparr>\<rparr>, [])"

fun crun :: "PatrollingController \<Rightarrow> cinput list \<Rightarrow> PatrollingController \<times> call list" where
  "crun c [] = (c, [])"
| "crun c (i # rest) =
     (case creact c i of
        (c', calls) \<Rightarrow> (case crun c' rest of (c'', calls') \<Rightarrow> (c'', calls @ calls')))"

subsection \<open>Two controllers for the examples\<close>

text \<open>
  The controller after a run in which the selector feed sends \<open>v\<close>, the patrol plan is
  found and taken, one sub-action is reported failed, and the plan ends with success
  \<open>ok\<close>.
\<close>

definition patrol_ended :: "32 word \<Rightarrow> bool \<Rightarrow> PatrollingController" where
  "patrol_ended v ok =
     fst (crun (init empty_Problem idle_Executor)
       [Selector v,
        Step (Some [''(move r2d2 wp_control wp1)'']) True,
        EngineFeedback
          [\<lparr>action = ''(move r2d2 wp_control wp1)'', completion = Finite (1/2),
            exec_status = FAILED, message_status = ''stuck''\<rparr>],
        PlanEnds \<lparr>success = ok, result_message = []\<rparr>])"

text \<open>
  The same controller one stage later: the patrol has succeeded, the next plan is found and
  taken, and it ends with success \<open>ok\<close>.
\<close>

definition return_ended :: "32 word \<Rightarrow> bool \<Rightarrow> PatrollingController" where
  "return_ended v ok =
     fst (crun (patrol_ended v True)
       [Step (Some [''(move r2d2 wp4 wp1)'']) True,
        PlanEnds \<lparr>success = ok, result_message = []\<rparr>])"


section \<open>Properties of the move action node\<close>

lemma wait_loop_ended_iff: "snd (wait_loop answers) \<longleftrightarrow> True \<in> set answers"
  by (induction answers) (auto split: prod.splits)

lemma wait_loop_logs:
  "wait_loop answers = (w, ended) \<Longrightarrow> e \<in> set w \<Longrightarrow>
     e = LogInfo ''Waiting for navigation action server...''"
  by (induction answers arbitrary: w ended) (auto split: if_splits prod.splits)

lemma sqrt_25: "sqrt 25 = 5"
  using real_sqrt_abs2 [of 5] by simp

lemmas move_defs = MoveAction_init_def do_work_def map_index_def wp_at_def getDistance_def
  current_pos_callback_def dsub_def sqrt_25 Let_def feedback_callback_def std_min_def std_max_def
  default_PoseStamped_def default_Pose_def approach_def arrival_def

lemma std_clamp_range:
  "\<exists>f. std_min (Finite 1) (std_max (Finite 0) v) = Finite f \<and> 0 \<le> f \<and> f \<le> 1"
  by (cases v) (auto simp: std_min_def std_max_def)

text \<open>
  C1. Whatever remaining distance \<open>r\<close> the navigation server reports and whatever the
  denominator \<^verbatim>\<open>dist_to_move\<close> holds (zero, infinite and not-a-number included), the
  feedback callback reports message "Move running" with the fraction
  \<open>min(1, max(0, 1 - r / dist_to_move))\<close>, and that fraction is a finite number between
  0 and 1.
\<close>

theorem feedback_fraction_clamped:
  "\<exists>f. feedback_callback s r = SendFeedback (Finite f) ''Move running''
      \<and> Finite f = std_min (Finite 1) (std_max (Finite 0)
                      (dsub (Finite 1) (ddiv r (dist_to_move s))))
      \<and> 0 \<le> f \<and> f \<le> 1"
  using std_clamp_range [of "dsub (Finite 1) (ddiv r (dist_to_move s))"]
  by (auto simp: feedback_callback_def)

text \<open>
  Three reports: a remaining distance beyond the denominator gives 0, a remaining
  distance of 2 out of 5 gives 3/5, and the quotient of two zeros, which is not a number,
  gives 0.
\<close>

theorem feedback_fraction_clamped_witness:
  "feedback_callback ((MoveAction_init 0 (Finite 0))\<lparr>dist_to_move := Finite 5\<rparr>) (Finite 7)
     = SendFeedback (Finite 0) ''Move running''
   \<and> feedback_callback ((MoveAction_init 0 (Finite 0))\<lparr>dist_to_move := Finite 5\<rparr>) (Finite 2)
     = SendFeedback (Finite (3/5)) ''Move running''
   \<and> feedback_callback (MoveAction_init 0 (Finite 0)) (Finite 0)
     = SendFeedback (Finite 0) ''Move running''"
  using feedback_fraction_clamped [of "(MoveAction_init 0 (Finite 0))\<lparr>dist_to_move := Finite 5\<rparr>" "Finite 7"]
  by (simp add: feedback_callback_def std_min_def std_max_def dsub_def MoveAction_init_def)








lemma navigating_tick:
  "status s = 1 \<Longrightarrow>
     do_work answers args s =
       (s\<lparr>dist_to_move := getDistance (pose (goal_pos s)) (current_pos s),
           status := (if dless (getDistance (pose (goal_pos s)) (current_pos s)) (Finite (3/10))
                      then 2 else 1)\<rparr>,
        [LogDistance (getDistance (pose (goal_pos s)) (current_pos s))], None)"
  by (simp add: do_work_def Let_def)



lemma finish_only_success:
  "react s i = (s', es, flt) \<Longrightarrow> Finish b f m \<in> set es \<Longrightarrow>
     b \<and> f = Finite 1 \<and> m = ''Move completed'' \<and> status s = 2 \<and> status s' = 0 \<and> flt = None"
  by (cases i) (auto simp: do_work_def Let_def feedback_callback_def
        split: if_splits prod.splits dest: wait_loop_logs)

lemma run_finish_only_success:
  "run s is = (s', es, flt) \<Longrightarrow> Finish b f m \<in> set es \<Longrightarrow>
     b \<and> f = Finite 1 \<and> m = ''Move completed''"
proof (induction "is" arbitrary: s es)
  case Nil
  then show ?case by simp
next
  case (Cons i rest)
  obtain s1 e1 f1 where r: "react s i = (s1, e1, f1)" by (cases "react s i") auto
  show ?case
  proof (cases f1)
    case (Some x)
    then have "es = e1" using r Cons.prems(1) by simp
    then show ?thesis using finish_only_success [OF r] Cons.prems(2) by blast
  next
    case None
    then obtain e2 where rr: "run s1 rest = (s', e2, flt)" and es: "es = e1 @ e2"
      using r Cons.prems(1) by (auto split: prod.splits)
    from Cons.prems(2) es consider "Finish b f m \<in> set e1" | "Finish b f m \<in> set e2" by auto
    then show ?thesis
    proof cases
      case 1
      then show ?thesis using finish_only_success [OF r] by blast
    next
      case 2
      then show ?thesis using Cons.IH [OF rr] by blast
    qed
  qed
qed

lemma do_work_ignores_stored_distance:
  "fst (snd (do_work answers args (s\<lparr>dist_to_move := d\<rparr>))) = fst (snd (do_work answers args s))"
  "snd (snd (do_work answers args (s\<lparr>dist_to_move := d\<rparr>))) = snd (snd (do_work answers args s))"
  "(fst (do_work answers args (s\<lparr>dist_to_move := d\<rparr>)))\<lparr>dist_to_move := e\<rparr>
     = (fst (do_work answers args s))\<lparr>dist_to_move := e\<rparr>"
  by (simp_all add: do_work_def Let_def split: prod.splits)

lemma idle_tick_distance:
  assumes "status s = 0" and "True \<in> set answers" and "2 < length args"
  shows "snd (snd (do_work answers args s)) = None
       \<and> goal_pos (fst (do_work answers args s)) = snd (map_index (waypoints s) (args ! 2))
       \<and> dist_to_move (fst (do_work answers args s))
           = getDistance (pose (snd (map_index (waypoints s) (args ! 2)))) (current_pos s)"
proof -
  obtain w where "wait_loop answers = (w, True)"
    using wait_loop_ended_iff [of answers] assms(2) by (cases "wait_loop answers") auto
  with assms show ?thesis by (simp add: do_work_def Let_def split: prod.splits)
qed

text \<open>
  In the example run the member \<^verbatim>\<open>dist_to_move\<close>, which the feedback callback divides
  by, holds 5 when the goal has been submitted and 2 after the next tick: the distance
  taken at submission is not kept.
\<close>

theorem denominator_not_kept:
  "dist_to_move (fst (run (MoveAction_init 0 (Finite 0)) (take 2 approach))) = Finite 5
   \<and> status (fst (run (MoveAction_init 0 (Finite 0)) (take 2 approach))) = 1
   \<and> dist_to_move (fst (run (MoveAction_init 0 (Finite 0)) approach)) = Finite 2
   \<and> status (fst (run (MoveAction_init 0 (Finite 0)) approach)) = 1
   \<and> snd (snd (run (MoveAction_init 0 (Finite 0)) approach)) = None"
  by (simp add: move_defs)

text \<open>
  C2 (as amended). The feedback callback divides by the member \<^verbatim>\<open>dist_to_move\<close>. The
  tick that submits the goal sets it to the distance between the target resolved and the
  pose of that moment. It is the node's only stored distance, and no tick reads it: what
  a tick sends, whether it returns, and the node it leaves (the member itself apart) are
  the same whatever the member held before; the distance a tick in status 1 logs and
  compares with 0.3 is computed in that tick from the goal and the latest pose.
\<close>

theorem denominator_set_at_submission:
  "(status s = 0 \<and> True \<in> set answers \<and> 2 < length args \<longrightarrow>
      snd (snd (do_work answers args s)) = None
      \<and> goal_pos (fst (do_work answers args s)) = snd (map_index (waypoints s) (args ! 2))
      \<and> dist_to_move (fst (do_work answers args s))
          = getDistance (pose (snd (map_index (waypoints s) (args ! 2)))) (current_pos s))
   \<and> feedback_callback s r =
       SendFeedback
         (std_min (Finite 1) (std_max (Finite 0) (dsub (Finite 1) (ddiv r (dist_to_move s)))))
         ''Move running''
   \<and> (status s = 1 \<longrightarrow>
        fst (snd (do_work answers args s))
          = [LogDistance (getDistance (pose (goal_pos s)) (current_pos s))]
        \<and> status (fst (do_work answers args s))
          = (if dless (getDistance (pose (goal_pos s)) (current_pos s)) (Finite (3/10))
             then 2 else 1))
   \<and> fst (snd (do_work answers args (s\<lparr>dist_to_move := d\<rparr>))) = fst (snd (do_work answers args s))
   \<and> snd (snd (do_work answers args (s\<lparr>dist_to_move := d\<rparr>))) = snd (snd (do_work answers args s))
   \<and> (fst (do_work answers args (s\<lparr>dist_to_move := d\<rparr>)))\<lparr>dist_to_move := e\<rparr>
       = (fst (do_work answers args s))\<lparr>dist_to_move := e\<rparr>"
proof (intro conjI impI)
  assume "status s = 0 \<and> True \<in> set answers \<and> 2 < length args"
  then have r: "snd (snd (do_work answers args s)) = None
       \<and> goal_pos (fst (do_work answers args s)) = snd (map_index (waypoints s) (args ! 2))
       \<and> dist_to_move (fst (do_work answers args s))
           = getDistance (pose (snd (map_index (waypoints s) (args ! 2)))) (current_pos s)"
    using idle_tick_distance by blast
  from r show "snd (snd (do_work answers args s)) = None" by simp
  from r show "goal_pos (fst (do_work answers args s)) = snd (map_index (waypoints s) (args ! 2))"
    by simp
  from r show "dist_to_move (fst (do_work answers args s))
           = getDistance (pose (snd (map_index (waypoints s) (args ! 2)))) (current_pos s)"
    by simp
next
  show "feedback_callback s r =
       SendFeedback
         (std_min (Finite 1) (std_max (Finite 0) (dsub (Finite 1) (ddiv r (dist_to_move s)))))
         ''Move running''"
    by (simp add: feedback_callback_def)
next
  assume one: "status s = 1"
  show "fst (snd (do_work answers args s))
          = [LogDistance (getDistance (pose (goal_pos s)) (current_pos s))]"
    by (simp add: navigating_tick [OF one])
  show "status (fst (do_work answers args s))
          = (if dless (getDistance (pose (goal_pos s)) (current_pos s)) (Finite (3/10))
             then 2 else 1)"
    by (simp add: navigating_tick [OF one])
next
  show "fst (snd (do_work answers args (s\<lparr>dist_to_move := d\<rparr>))) = fst (snd (do_work answers args s))"
    by (rule do_work_ignores_stored_distance)
  show "snd (snd (do_work answers args (s\<lparr>dist_to_move := d\<rparr>))) = snd (snd (do_work answers args s))"
    by (rule do_work_ignores_stored_distance)
  show "(fst (do_work answers args (s\<lparr>dist_to_move := d\<rparr>)))\<lparr>dist_to_move := e\<rparr>
       = (fst (do_work answers args s))\<lparr>dist_to_move := e\<rparr>"
    by (rule do_work_ignores_stored_distance)
qed

text \<open>
  The example run: the goal is submitted with the robot at (2, 7), five units from the
  target (2, 2); the next tick, with the robot at (2, 4), logs the distance 2 and stays in
  status 1.
\<close>

theorem denominator_set_at_submission_witness:
  "status (fst (run (MoveAction_init 0 (Finite 0)) (take 1 approach))) = 0
   \<and> True \<in> set [False, True]
   \<and> 2 < length [''r2d2'', ''wp1'', ''wp_control'']
   \<and> goal_pos (fst (do_work [False, True] [''r2d2'', ''wp1'', ''wp_control'']
                  (fst (run (MoveAction_init 0 (Finite 0)) (take 1 approach))))) = wp_at 0 2 2
   \<and> dist_to_move (fst (do_work [False, True] [''r2d2'', ''wp1'', ''wp_control'']
                  (fst (run (MoveAction_init 0 (Finite 0)) (take 1 approach))))) = Finite 5
   \<and> status (fst (run (MoveAction_init 0 (Finite 0)) (take 3 approach))) = 1
   \<and> fst (snd (do_work [] [''r2d2'', ''wp1'', ''wp_control'']
                  (fst (run (MoveAction_init 0 (Finite 0)) (take 3 approach)))))
       = [LogDistance (Finite 2)]
   \<and> status (fst (do_work [] [''r2d2'', ''wp1'', ''wp_control'']
                  (fst (run (MoveAction_init 0 (Finite 0)) (take 3 approach))))) = 1"
  using denominator_set_at_submission
      [of "fst (run (MoveAction_init 0 (Finite 0)) (take 1 approach))" "[False, True]"
          "[''r2d2'', ''wp1'', ''wp_control'']"]
    denominator_set_at_submission
      [of "fst (run (MoveAction_init 0 (Finite 0)) (take 3 approach))" "[]"
          "[''r2d2'', ''wp1'', ''wp_control'']"]
  by (simp add: move_defs)

text \<open>
  The action "move r2d2 wp1 wp9" names a waypoint the table does not hold. The first tick
  reports nothing but the starting feedback, submits the default-constructed pose as goal
  and moves on to status 1: the action is not failed.
\<close>

theorem missing_waypoint_not_failed:
  "waypoints (MoveAction_init 0 (Finite 0)) ''wp9'' = None
   \<and> fst (snd (do_work [True] [''r2d2'', ''wp1'', ''wp9''] (MoveAction_init 0 (Finite 0))))
     = [SendFeedback (Finite 0) ''Move starting'',
        LogInfo ''Waiting for navigation action server...'',
        LogInfo ''Navigation action server ready'',
        LogInfo ''Start navigation to [wp9]'',
        AsyncSendGoal default_PoseStamped,
        LogInfo ''Goal sent to navigation action server'']
   \<and> snd (snd (do_work [True] [''r2d2'', ''wp1'', ''wp9''] (MoveAction_init 0 (Finite 0)))) = None
   \<and> status (fst (do_work [True] [''r2d2'', ''wp1'', ''wp9''] (MoveAction_init 0 (Finite 0)))) = 1"
  by (simp add: MoveAction_init_def do_work_def map_index_def Let_def)

text \<open>
  C3 (as amended). When the first tick resolves the third argument against the waypoint
  table and the id is absent, the tick returns once the server is ready, and it does not
  fail the action: the lookup enters a default-constructed pose under that id, that pose
  becomes the goal submitted to the navigation server, the distance is taken to it, the
  status becomes 1 (navigating), and no result is reported to the host.
\<close>

theorem missing_waypoint_navigates_to_origin:
  assumes "status s = 0" and "True \<in> set answers" and "2 < length args"
    and "waypoints s (args ! 2) = None"
  shows "\<exists>s' es. do_work answers args s = (s', es, None)
       \<and> status s' = 1
       \<and> waypoints s' = (waypoints s)(args ! 2 \<mapsto> default_PoseStamped)
       \<and> goal_pos s' = default_PoseStamped
       \<and> navigation_goal s' = default_PoseStamped
       \<and> dist_to_move s' = getDistance default_Pose (current_pos s)
       \<and> AsyncSendGoal default_PoseStamped \<in> set es
       \<and> (\<forall>b f m. Finish b f m \<notin> set es)"
proof -
  obtain w where w: "wait_loop answers = (w, True)"
    using wait_loop_ended_iff [of answers] assms(2) by (cases "wait_loop answers") auto
  have "\<And>b f m. Finish b f m \<notin> set w"
    using wait_loop_logs [OF w] by blast
  then show ?thesis
    using assms w by (simp add: do_work_def map_index_def Let_def default_PoseStamped_def)
qed

text \<open>The amended statement at the action "move r2d2 wp1 wp9" on the freshly built node.\<close>

theorem missing_waypoint_navigates_to_origin_witness:
  "status (MoveAction_init 0 (Finite 0)) = 0 \<and> True \<in> set [True]
   \<and> 2 < length [''r2d2'', ''wp1'', ''wp9'']
   \<and> waypoints (MoveAction_init 0 (Finite 0)) ([''r2d2'', ''wp1'', ''wp9''] ! 2) = None
   \<and> (\<exists>s' es. do_work [True] [''r2d2'', ''wp1'', ''wp9''] (MoveAction_init 0 (Finite 0)) = (s', es, None)
         \<and> status s' = 1 \<and> goal_pos s' = default_PoseStamped
         \<and> dist_to_move s' = Finite 0
         \<and> AsyncSendGoal default_PoseStamped \<in> set es)"
proof -
  have h: "status (MoveAction_init 0 (Finite 0)) = 0" "True \<in> set [True]"
    "2 < length [''r2d2'', ''wp1'', ''wp9'']"
    "waypoints (MoveAction_init 0 (Finite 0)) ([''r2d2'', ''wp1'', ''wp9''] ! 2) = None"
    by (simp_all add: MoveAction_init_def)
  have d: "getDistance default_Pose (current_pos (MoveAction_init 0 (Finite 0))) = Finite 0"
    by (simp add: MoveAction_init_def getDistance_def default_Pose_def dsub_def)
  show ?thesis
    using h missing_waypoint_navigates_to_origin [OF h] d by auto
qed



text \<open>
  C8. Whatever reaches the node (a tick, a pose sample, a feedback message of the
  navigation server), every result it reports to the host is \<^verbatim>\<open>finish(true, 1.0,
  "Move completed")\<close>, reported by a tick taken in status 2, which returns in status 0;
  a tick that does not return reports no result. So no run, whether all its ticks return
  or not, reports a failure.
\<close>

theorem only_success_reported:
  "(\<forall>s' es flt b f m. react s i = (s', es, flt) \<and> Finish b f m \<in> set es \<longrightarrow>
      b \<and> f = Finite 1 \<and> m = ''Move completed'' \<and> status s = 2 \<and> status s' = 0
      \<and> flt = None)
   \<and> (\<forall>s' es flt b f m. run s inputs = (s', es, flt) \<and> Finish b f m \<in> set es \<longrightarrow>
      b \<and> f = Finite 1 \<and> m = ''Move completed'')"
  using finish_only_success run_finish_only_success by blast

text \<open>The example run returns, ends in status 0 and reports the one result.\<close>

theorem only_success_reported_witness:
  "run (MoveAction_init 0 (Finite 0)) (approach @ arrival) =
     (fst (run (MoveAction_init 0 (Finite 0)) (approach @ arrival)),
      [SendFeedback (Finite 0) ''Move starting'',
       LogInfo ''Waiting for navigation action server...'',
       LogInfo ''Waiting for navigation action server...'',
       LogInfo ''Navigation action server ready'',
       LogInfo ''Start navigation to [wp_control]'',
       AsyncSendGoal (wp_at 0 2 2),
       LogInfo ''Goal sent to navigation action server'',
       LogDistance (Finite 2),
       LogDistance (Finite 0),
       LogInfo ''Goal reached!'',
       Finish True (Finite 1) ''Move completed''],
      None)
   \<and> status (fst (run (MoveAction_init 0 (Finite 0)) (approach @ arrival))) = 0"
  using only_success_reported
    [where s = "MoveAction_init 0 (Finite 0)" and inputs = "approach @ arrival"]
  by (simp add: move_defs)

section \<open>Properties of the patrolling controller node\<close>

lemma step_PF_success:
  "state c = PATROL_FINISHED \<Longrightarrow> \<not> execute_and_check_plan (executor_client c) \<Longrightarrow>
   getResult (executor_client c) = Some r \<Longrightarrow> success r \<Longrightarrow>
   step plan_reply accepted c =
     (fst (plan_and_start plan_reply accepted GO_BACK
            (c\<lparr>problem_expert := fst (choose_goal (received_value c) (fst (clean_up (problem_expert c))))\<rparr>)),
      [progress_line (getFeedBack (executor_client c)), Cout [Str ''Successful finished '']]
      @ snd (clean_up (problem_expert c))
      @ snd (choose_goal (received_value c) (fst (clean_up (problem_expert c))))
      @ snd (plan_and_start plan_reply accepted GO_BACK
            (c\<lparr>problem_expert := fst (choose_goal (received_value c) (fst (clean_up (problem_expert c))))\<rparr>)))"
  by (simp add: step_def split: prod.splits)

lemma step_PF_failure:
  "state c = PATROL_FINISHED \<Longrightarrow> \<not> execute_and_check_plan (executor_client c) \<Longrightarrow>
   getResult (executor_client c) = Some r \<Longrightarrow> \<not> success r \<Longrightarrow>
   step plan_reply accepted c =
     (fst (replan plan_reply accepted c),
      progress_line (getFeedBack (executor_client c))
      # failed_lines (getFeedBack (executor_client c)) @ snd (replan plan_reply accepted c))"
  by (simp add: step_def split: prod.splits)

lemma step_GB_success:
  "state c = GO_BACK \<Longrightarrow> \<not> execute_and_check_plan (executor_client c) \<Longrightarrow>
   getResult (executor_client c) = Some r \<Longrightarrow> success r \<Longrightarrow>
   step plan_reply accepted c =
     (c\<lparr>problem_expert := fst (drop_robot_at (received_value c) (problem_expert c))\<rparr>,
      [progress_line (getFeedBack (executor_client c)), Cout [Str ''Successful finished '']]
      @ snd (drop_robot_at (received_value c) (problem_expert c)))"
  by (simp add: step_def split: prod.splits)

lemma step_GB_failure:
  "state c = GO_BACK \<Longrightarrow> \<not> execute_and_check_plan (executor_client c) \<Longrightarrow>
   getResult (executor_client c) = Some r \<Longrightarrow> \<not> success r \<Longrightarrow>
   step plan_reply accepted c =
     (fst (replan plan_reply accepted c),
      progress_line (getFeedBack (executor_client c))
      # failed_lines (getFeedBack (executor_client c)) @ snd (replan plan_reply accepted c))"
  by (simp add: step_def split: prod.splits)

lemma replan_frame:
  "state (fst (replan plan_reply accepted c)) = state c"
  "problem_expert (fst (replan plan_reply accepted c)) = problem_expert c"
  "received_value (fst (replan plan_reply accepted c)) = received_value c"
  by (simp_all add: replan_def split: option.splits)

lemma replan_calls:
  "snd (replan plan_reply accepted c) =
     GetPlan (problem_expert c) #
     (case plan_reply of
        None \<Rightarrow> [Cout [Str ''Unsuccessful replan attempt to reach goal '',
                        GoalText (goal (problem_expert c))]]
      | Some plan \<Rightarrow> [StartPlanExecution plan])"
  by (simp add: replan_def getGoal_def split: option.splits)

lemma plan_and_start_frame:
  "problem_expert (fst (plan_and_start plan_reply accepted nxt c)) = problem_expert c"
  "received_value (fst (plan_and_start plan_reply accepted nxt c)) = received_value c"
  "state (fst (plan_and_start plan_reply accepted nxt c)) =
     (if plan_reply \<noteq> None \<and> accepted then nxt else state c)"
  by (auto simp: plan_and_start_def start_plan_execution_def split: option.splits prod.splits)

lemma plan_and_start_calls:
  "snd (plan_and_start plan_reply accepted nxt c) =
     GetPlan (problem_expert c) #
     (case plan_reply of
        None \<Rightarrow> [Cout [Str ''Could not find plan to reach goal '',
                        GoalText (goal (problem_expert c))]]
      | Some plan \<Rightarrow> [StartPlanExecution plan])"
  by (simp add: plan_and_start_def getGoal_def split: option.splits prod.splits)

lemma clean_up_goal: "goal (fst (clean_up p)) = goal p"
  by (simp add: clean_up_def removePredicate_def)


lemma patrol_ended_fields:
  "state (patrol_ended v ok) = PATROL_FINISHED"
  "received_value (patrol_ended v ok) = v"
  "in_flight (executor_client (patrol_ended v ok)) = 0"
  "result (executor_client (patrol_ended v ok)) = Some \<lparr>success = ok, result_message = []\<rparr>"
  "feedback (executor_client (patrol_ended v ok)) =
     [\<lparr>action = ''(move r2d2 wp_control wp1)'', completion = Finite (1/2),
            exec_status = FAILED, message_status = ''stuck''\<rparr>]"
  "goal (problem_expert (patrol_ended v ok)) = patrol_goal"
  "predicates (problem_expert (patrol_ended v ok)) =
     [''(robot_at r2d2 wp_control)'', ''(connected wp_control wp1)'', ''(connected wp1 wp2)'',
      ''(connected wp2 wp3)'', ''(connected wp3 wp4)'', ''(connected wp4 wp1)'',
      ''(connected wp4 wp3)'', ''(connected wp3 wp2)'']"
  by (simp_all add: patrol_ended_def init_def init_knowledge_def empty_Problem_def
        idle_Executor_def addInstance_def addPredicate_def subscriberCallback_def step_def
        plan_and_start_def start_plan_execution_def setGoal_def plan_ends_def)

lemma patrol_ended_guard:
  "\<not> execute_and_check_plan (executor_client (patrol_ended v ok))"
  "getResult (executor_client (patrol_ended v ok)) = Some \<lparr>success = ok, result_message = []\<rparr>"
  by (simp_all add: execute_and_check_plan_def getResult_def patrol_ended_fields)

lemma return_ended_fields:
  "state (return_ended 1 ok) = GO_BACK"
  "received_value (return_ended 1 ok) = 1"
  "in_flight (executor_client (return_ended 1 ok)) = 0"
  "result (executor_client (return_ended 1 ok)) = Some \<lparr>success = ok, result_message = []\<rparr>"
  "feedback (executor_client (return_ended 1 ok)) = []"
  "goal (problem_expert (return_ended 1 ok)) = ''(and(robot_at r2d2 wp2))''"
  "predicates (problem_expert (return_ended 1 ok)) =
     [''(robot_at r2d2 wp_control)'', ''(connected wp_control wp1)'', ''(connected wp1 wp2)'',
      ''(connected wp2 wp3)'', ''(connected wp3 wp4)'', ''(connected wp4 wp1)'',
      ''(connected wp4 wp3)'', ''(connected wp3 wp2)'']"
  by (simp_all add: return_ended_def step_PF_success [OF patrol_ended_fields(1) patrol_ended_guard(1) patrol_ended_guard(2)]
        plan_and_start_def start_plan_execution_def plan_ends_def choose_goal_def clean_up_def
        patrol_ended_fields setGoal_def removePredicate_def)

text \<open>
  C4. In the success branch of \<^verbatim>\<open>PATROL_FINISHED\<close> (the engine is not executing and its
  result is a success): with the selector at 0, 1, 2 or 3 the goal of the store after the
  tick is "robot at wp1", "wp2", "wp3", "wp4" respectively, set by the one \<^verbatim>\<open>setGoal\<close>
  call of the tick; with any other selector the goal is the one before the tick, no
  \<^verbatim>\<open>setGoal\<close> is called and the line "Invalid state :(" is written, which a selector
  in range does not cause.
\<close>

theorem selector_chooses_goal:
  assumes "state c = PATROL_FINISHED"
    and "\<not> execute_and_check_plan (executor_client c)"
    and "getResult (executor_client c) = Some r"
    and "success r"
    and "step plan_reply accepted c = (c', calls)"
  shows "(received_value c = 0 \<longrightarrow>
            goal (problem_expert c') = ''(and(robot_at r2d2 wp1))''
            \<and> (\<forall>g. SetGoal g \<in> set calls \<longleftrightarrow> g = ''(and(robot_at r2d2 wp1))''))
       \<and> (received_value c = 1 \<longrightarrow>
            goal (problem_expert c') = ''(and(robot_at r2d2 wp2))''
            \<and> (\<forall>g. SetGoal g \<in> set calls \<longleftrightarrow> g = ''(and(robot_at r2d2 wp2))''))
       \<and> (received_value c = 2 \<longrightarrow>
            goal (problem_expert c') = ''(and(robot_at r2d2 wp3))''
            \<and> (\<forall>g. SetGoal g \<in> set calls \<longleftrightarrow> g = ''(and(robot_at r2d2 wp3))''))
       \<and> (received_value c = 3 \<longrightarrow>
            goal (problem_expert c') = ''(and(robot_at r2d2 wp4))''
            \<and> (\<forall>g. SetGoal g \<in> set calls \<longleftrightarrow> g = ''(and(robot_at r2d2 wp4))''))
       \<and> (received_value c \<notin> {0, 1, 2, 3} \<longrightarrow>
            goal (problem_expert c') = goal (problem_expert c)
            \<and> (\<forall>g. SetGoal g \<notin> set calls)
            \<and> Cout [Str ''Invalid state :(''] \<in> set calls)
       \<and> (received_value c \<in> {0, 1, 2, 3} \<longrightarrow> Cout [Str ''Invalid state :(''] \<notin> set calls)"
proof -
  have c': "c' = fst (plan_and_start plan_reply accepted GO_BACK
            (c\<lparr>problem_expert := fst (choose_goal (received_value c) (fst (clean_up (problem_expert c))))\<rparr>))"
    and calls: "calls = [progress_line (getFeedBack (executor_client c)), Cout [Str ''Successful finished '']]
      @ snd (clean_up (problem_expert c))
      @ snd (choose_goal (received_value c) (fst (clean_up (problem_expert c))))
      @ snd (plan_and_start plan_reply accepted GO_BACK
            (c\<lparr>problem_expert := fst (choose_goal (received_value c) (fst (clean_up (problem_expert c))))\<rparr>))"
    using step_PF_success [OF assms(1-4), of plan_reply accepted] assms(5) by simp_all
  have g: "goal (problem_expert c') = goal (fst (choose_goal (received_value c) (fst (clean_up (problem_expert c)))))"
    by (simp add: c' plan_and_start_frame)
  have removed: "SetGoal g \<notin> set (snd (clean_up p))"
    "Cout [Str ''Invalid state :(''] \<notin> set (snd (clean_up p))" for p g
    by (simp_all add: clean_up_def)
  have planned: "SetGoal g \<notin> set (snd (plan_and_start plan_reply accepted nxt d))"
    "Cout [Str ''Invalid state :(''] \<notin> set (snd (plan_and_start plan_reply accepted nxt d))" for nxt d g
    by (simp_all add: plan_and_start_calls split: option.splits)
  have line: "[Str ''Invalid state :(''] \<noteq> concat (map (\<lambda>a. [Str ''['', Str (action a), Str '' '',
                               Num (dmul (completion a) (Finite 100)), Str ''%]'']) fb)" for fb
  proof (cases fb)
    case Nil
    then show ?thesis by simp
  next
    case (Cons a rest)
    then show ?thesis by simp
  qed
  show ?thesis
    unfolding g calls
    by (auto simp add: removed planned line choose_goal_def setGoal_def clean_up_goal progress_line_def)
qed

text \<open>The selector is 1 when the patrol plan has succeeded: the goal becomes "robot at wp2".\<close>

theorem selector_chooses_goal_witness:
  "state (patrol_ended 1 True) = PATROL_FINISHED
   \<and> \<not> execute_and_check_plan (executor_client (patrol_ended 1 True))
   \<and> getResult (executor_client (patrol_ended 1 True)) = Some \<lparr>success = True, result_message = []\<rparr>
   \<and> received_value (patrol_ended 1 True) = 1
   \<and> goal (problem_expert (patrol_ended 1 True)) = patrol_goal
   \<and> goal (problem_expert (fst (step None False (patrol_ended 1 True)))) = ''(and(robot_at r2d2 wp2))''
   \<and> SetGoal ''(and(robot_at r2d2 wp2))'' \<in> set (snd (step None False (patrol_ended 1 True)))"
proof -
  have h: "state (patrol_ended 1 True) = PATROL_FINISHED"
    "\<not> execute_and_check_plan (executor_client (patrol_ended 1 True))"
    "getResult (executor_client (patrol_ended 1 True)) = Some \<lparr>success = True, result_message = []\<rparr>"
    "success \<lparr>success = True, result_message = []\<rparr>"
    "step None False (patrol_ended 1 True)
       = (fst (step None False (patrol_ended 1 True)), snd (step None False (patrol_ended 1 True)))"
    by (simp_all add: patrol_ended_fields patrol_ended_guard)
  show ?thesis
    using selector_chooses_goal [OF h] h(1-3) by (simp add: patrol_ended_fields)
qed

text \<open>
  C7. When the plan has ended without success while the controller is in
  \<^verbatim>\<open>PATROL_FINISHED\<close>, the tick writes the progress line, one line with name and message
  for each sub-action the feedback reports as failed, asks the planner on the unchanged
  store (goal and facts as before) and submits the plan it gets (with no plan it writes
  a line instead); the controller stays in \<^verbatim>\<open>PATROL_FINISHED\<close>, the store is unchanged,
  and the tick calls neither \<^verbatim>\<open>removePredicate\<close> nor \<^verbatim>\<open>setGoal\<close>.
\<close>

theorem failed_plan_replanned:
  assumes "state c = PATROL_FINISHED"
    and "\<not> execute_and_check_plan (executor_client c)"
    and "getResult (executor_client c) = Some r"
    and "\<not> success r"
    and "step plan_reply accepted c = (c', calls)"
  shows "state c' = PATROL_FINISHED
       \<and> problem_expert c' = problem_expert c
       \<and> calls =
           progress_line (getFeedBack (executor_client c))
           # map (\<lambda>a. Cout [Str ''['', Str (action a), Str ''] finished with error: '',
                             Str (message_status a)])
               (filter (\<lambda>a. exec_status a = FAILED) (getFeedBack (executor_client c)))
           @ GetPlan (problem_expert c)
           # (case plan_reply of
                None \<Rightarrow> [Cout [Str ''Unsuccessful replan attempt to reach goal '',
                                GoalText (goal (problem_expert c))]]
              | Some plan \<Rightarrow> [StartPlanExecution plan])
       \<and> (\<forall>f. RemovePredicate f \<notin> set calls)
       \<and> (\<forall>g. SetGoal g \<notin> set calls)"
proof -
  have c': "c' = fst (replan plan_reply accepted c)"
    and calls: "calls = progress_line (getFeedBack (executor_client c))
      # failed_lines (getFeedBack (executor_client c)) @ snd (replan plan_reply accepted c)"
    using step_PF_failure [OF assms(1-4), of plan_reply accepted] assms(5) by simp_all
  have 1: "state c' = PATROL_FINISHED" by (simp add: c' replan_frame assms(1))
  have 2: "problem_expert c' = problem_expert c" by (simp add: c' replan_frame)
  have 3: "calls =
           progress_line (getFeedBack (executor_client c))
           # map (\<lambda>a. Cout [Str ''['', Str (action a), Str ''] finished with error: '',
                             Str (message_status a)])
               (filter (\<lambda>a. exec_status a = FAILED) (getFeedBack (executor_client c)))
           @ GetPlan (problem_expert c)
           # (case plan_reply of
                None \<Rightarrow> [Cout [Str ''Unsuccessful replan attempt to reach goal '',
                                GoalText (goal (problem_expert c))]]
              | Some plan \<Rightarrow> [StartPlanExecution plan])"
    by (simp add: calls replan_calls failed_lines_def)
  have 4: "RemovePredicate f \<notin> set calls" for f
    unfolding 3 by (auto simp: progress_line_def split: option.splits)
  have 5: "SetGoal g \<notin> set calls" for g
    unfolding 3 by (auto simp: progress_line_def split: option.splits)
  show ?thesis using 1 2 3 4 5 by blast
qed

text \<open>The patrol plan has failed with one sub-action reported as stuck.\<close>

theorem failed_plan_replanned_witness:
  "state (patrol_ended 1 False) = PATROL_FINISHED
   \<and> \<not> execute_and_check_plan (executor_client (patrol_ended 1 False))
   \<and> getResult (executor_client (patrol_ended 1 False)) = Some \<lparr>success = False, result_message = []\<rparr>
   \<and> state (fst (step (Some [''(move r2d2 wp_control wp1)'']) True (patrol_ended 1 False))) = PATROL_FINISHED
   \<and> problem_expert (fst (step (Some [''(move r2d2 wp_control wp1)'']) True (patrol_ended 1 False)))
       = problem_expert (patrol_ended 1 False)
   \<and> goal (problem_expert (patrol_ended 1 False)) = patrol_goal
   \<and> snd (step (Some [''(move r2d2 wp_control wp1)'']) True (patrol_ended 1 False)) =
       [Cout [Str ''['', Str ''(move r2d2 wp_control wp1)'', Str '' '', Num (Finite 50), Str ''%]''],
        Cout [Str ''['', Str ''(move r2d2 wp_control wp1)'', Str ''] finished with error: '', Str ''stuck''],
        GetPlan (problem_expert (patrol_ended 1 False)),
        StartPlanExecution [''(move r2d2 wp_control wp1)'']]"
proof -
  have h: "state (patrol_ended 1 False) = PATROL_FINISHED"
    "\<not> execute_and_check_plan (executor_client (patrol_ended 1 False))"
    "getResult (executor_client (patrol_ended 1 False)) = Some \<lparr>success = False, result_message = []\<rparr>"
    "\<not> success \<lparr>success = False, result_message = []\<rparr>"
    "step (Some [''(move r2d2 wp_control wp1)'']) True (patrol_ended 1 False)
       = (fst (step (Some [''(move r2d2 wp_control wp1)'']) True (patrol_ended 1 False)),
          snd (step (Some [''(move r2d2 wp_control wp1)'']) True (patrol_ended 1 False)))"
    by (simp_all add: patrol_ended_fields patrol_ended_guard)
  show ?thesis
    using failed_plan_replanned [OF h] h(1-3)
    by (simp add: patrol_ended_fields progress_line_def getFeedBack_def)
qed

lemma creact_GO_BACK: "state c = GO_BACK \<Longrightarrow> state (fst (creact c i)) = GO_BACK"
  by (cases i)
     (auto simp: step_def subscriberCallback_def replan_def Let_def
           split: option.splits prod.splits if_splits)

lemma crun_Cons_fst: "fst (crun c (i # rest)) = fst (crun (fst (creact c i)) rest)"
  by (auto split: prod.splits)

lemma crun_GO_BACK: "state c = GO_BACK \<Longrightarrow> state (fst (crun c inputs)) = GO_BACK"
proof (induction inputs arbitrary: c)
  case Nil
  then show ?case by simp
next
  case (Cons i rest)
  have "state (fst (creact c i)) = GO_BACK" using Cons.prems by (rule creact_GO_BACK)
  then have "state (fst (crun (fst (creact c i)) rest)) = GO_BACK" by (rule Cons.IH)
  then show ?case by (simp only: crun_Cons_fst)
qed

lemma creact_not_STARTING: "state c \<noteq> STARTING \<Longrightarrow> state (fst (creact c i)) \<noteq> STARTING"
  by (cases i; cases "state c")
     (auto simp: step_def subscriberCallback_def replan_def plan_and_start_def Let_def
           split: option.splits prod.splits if_splits)

text \<open>
  C9. A controller in \<^verbatim>\<open>GO_BACK\<close> is in \<^verbatim>\<open>GO_BACK\<close> after any further inputs, so it
  never comes back to \<^verbatim>\<open>STARTING\<close>. When the plan has succeeded, the tick only removes
  the fact "robot at" of the waypoint the selector stands for (with a selector out of
  range it writes "Invalid state :(" and removes nothing): the goal, the engine and the
  state are untouched and no plan is asked for. When the plan has failed, the tick asks
  the planner on the unchanged store, submits the plan it gets, and stays in
  \<^verbatim>\<open>GO_BACK\<close>.
\<close>

theorem go_back_is_final:
  assumes "state c = GO_BACK"
  shows "state (fst (crun c inputs)) = GO_BACK
       \<and> (\<forall>r. \<not> execute_and_check_plan (executor_client c)
              \<and> getResult (executor_client c) = Some r \<and> success r \<longrightarrow>
            step plan_reply accepted c =
              (c\<lparr>problem_expert := (problem_expert c)\<lparr>predicates :=
                   (if received_value c = 0 then removeAll ''(robot_at r2d2 wp1)'' (predicates (problem_expert c))
                    else if received_value c = 1 then removeAll ''(robot_at r2d2 wp2)'' (predicates (problem_expert c))
                    else if received_value c = 2 then removeAll ''(robot_at r2d2 wp3)'' (predicates (problem_expert c))
                    else if received_value c = 3 then removeAll ''(robot_at r2d2 wp4)'' (predicates (problem_expert c))
                    else predicates (problem_expert c))\<rparr>\<rparr>,
               [progress_line (getFeedBack (executor_client c)), Cout [Str ''Successful finished ''],
                if received_value c = 0 then RemovePredicate ''(robot_at r2d2 wp1)''
                else if received_value c = 1 then RemovePredicate ''(robot_at r2d2 wp2)''
                else if received_value c = 2 then RemovePredicate ''(robot_at r2d2 wp3)''
                else if received_value c = 3 then RemovePredicate ''(robot_at r2d2 wp4)''
                else Cout [Str ''Invalid state :('']]))
       \<and> (\<forall>r. \<not> execute_and_check_plan (executor_client c)
              \<and> getResult (executor_client c) = Some r \<and> \<not> success r \<longrightarrow>
            state (fst (step plan_reply accepted c)) = GO_BACK
            \<and> problem_expert (fst (step plan_reply accepted c)) = problem_expert c
            \<and> snd (step plan_reply accepted c) =
                progress_line (getFeedBack (executor_client c))
                # failed_lines (getFeedBack (executor_client c))
                @ GetPlan (problem_expert c)
                # (case plan_reply of
                     None \<Rightarrow> [Cout [Str ''Unsuccessful replan attempt to reach goal '',
                                     GoalText (goal (problem_expert c))]]
                   | Some plan \<Rightarrow> [StartPlanExecution plan]))"
proof (intro conjI allI impI)
  show "state (fst (crun c inputs)) = GO_BACK" using assms by (rule crun_GO_BACK)
next
  fix r
  assume a: "\<not> execute_and_check_plan (executor_client c)
              \<and> getResult (executor_client c) = Some r \<and> success r"
  have "step plan_reply accepted c =
     (c\<lparr>problem_expert := fst (drop_robot_at (received_value c) (problem_expert c))\<rparr>,
      [progress_line (getFeedBack (executor_client c)), Cout [Str ''Successful finished '']]
      @ snd (drop_robot_at (received_value c) (problem_expert c)))"
    using step_GB_success [OF assms, of r] a by blast
  then show "step plan_reply accepted c =
              (c\<lparr>problem_expert := (problem_expert c)\<lparr>predicates :=
                   (if received_value c = 0 then removeAll ''(robot_at r2d2 wp1)'' (predicates (problem_expert c))
                    else if received_value c = 1 then removeAll ''(robot_at r2d2 wp2)'' (predicates (problem_expert c))
                    else if received_value c = 2 then removeAll ''(robot_at r2d2 wp3)'' (predicates (problem_expert c))
                    else if received_value c = 3 then removeAll ''(robot_at r2d2 wp4)'' (predicates (problem_expert c))
                    else predicates (problem_expert c))\<rparr>\<rparr>,
               [progress_line (getFeedBack (executor_client c)), Cout [Str ''Successful finished ''],
                if received_value c = 0 then RemovePredicate ''(robot_at r2d2 wp1)''
                else if received_value c = 1 then RemovePredicate ''(robot_at r2d2 wp2)''
                else if received_value c = 2 then RemovePredicate ''(robot_at r2d2 wp3)''
                else if received_value c = 3 then RemovePredicate ''(robot_at r2d2 wp4)''
                else Cout [Str ''Invalid state :('']])"
    by (simp add: drop_robot_at_def removePredicate_def)
next
  fix r
  assume a: "\<not> execute_and_check_plan (executor_client c)
              \<and> getResult (executor_client c) = Some r \<and> \<not> success r"
  have s: "step plan_reply accepted c =
     (fst (replan plan_reply accepted c),
      progress_line (getFeedBack (executor_client c))
      # failed_lines (getFeedBack (executor_client c)) @ snd (replan plan_reply accepted c))"
    using step_GB_failure [OF assms, of r] a by blast
  show "state (fst (step plan_reply accepted c)) = GO_BACK"
    by (simp add: s replan_frame assms)
  show "problem_expert (fst (step plan_reply accepted c)) = problem_expert c"
    by (simp add: s replan_frame)
  show "snd (step plan_reply accepted c) =
                progress_line (getFeedBack (executor_client c))
                # failed_lines (getFeedBack (executor_client c))
                @ GetPlan (problem_expert c)
                # (case plan_reply of
                     None \<Rightarrow> [Cout [Str ''Unsuccessful replan attempt to reach goal '',
                                     GoalText (goal (problem_expert c))]]
                   | Some plan \<Rightarrow> [StartPlanExecution plan])"
    by (simp add: s replan_calls)
qed

text \<open>
  The return plan has succeeded with the selector at 1: the fact "robot_at r2d2 wp2" is
  removed, and the state stays. The return plan has failed: the plan is asked for and
  submitted again, and the state stays.
\<close>

theorem go_back_is_final_witness:
  "state (return_ended 1 True) = GO_BACK
   \<and> state (fst (crun (return_ended 1 True) [Step None False, Selector 0, Step None False])) = GO_BACK
   \<and> step None False (return_ended 1 True) =
       ((return_ended 1 True)\<lparr>problem_expert := (problem_expert (return_ended 1 True))
           \<lparr>predicates := removeAll ''(robot_at r2d2 wp2)'' (predicates (problem_expert (return_ended 1 True)))\<rparr>\<rparr>,
        [Cout [], Cout [Str ''Successful finished ''], RemovePredicate ''(robot_at r2d2 wp2)''])
   \<and> state (return_ended 1 False) = GO_BACK
   \<and> snd (step (Some [''(move r2d2 wp4 wp1)'']) True (return_ended 1 False)) =
       [Cout [], GetPlan (problem_expert (return_ended 1 False)),
        StartPlanExecution [''(move r2d2 wp4 wp1)'']]
   \<and> state (fst (step (Some [''(move r2d2 wp4 wp1)'']) True (return_ended 1 False))) = GO_BACK"
proof -
  have g: "\<not> execute_and_check_plan (executor_client (return_ended 1 ok))
      \<and> getResult (executor_client (return_ended 1 ok)) = Some \<lparr>success = ok, result_message = []\<rparr>" for ok
    by (simp add: execute_and_check_plan_def getResult_def return_ended_fields)
  note a = go_back_is_final [OF return_ended_fields(1) [of True],
      of "[Step None False, Selector 0, Step None False]" None False]
  note b = go_back_is_final [OF return_ended_fields(1) [of False],
      of "[]" "Some [''(move r2d2 wp4 wp1)'']" True]
  have 1: "state (fst (crun (return_ended 1 True) [Step None False, Selector 0, Step None False])) = GO_BACK"
    using a by (rule conjunct1)
  have 2: "step None False (return_ended 1 True) =
       ((return_ended 1 True)\<lparr>problem_expert := (problem_expert (return_ended 1 True))
           \<lparr>predicates := removeAll ''(robot_at r2d2 wp2)'' (predicates (problem_expert (return_ended 1 True)))\<rparr>\<rparr>,
        [Cout [], Cout [Str ''Successful finished ''], RemovePredicate ''(robot_at r2d2 wp2)''])"
    using a g [of True]
    by (simp add: return_ended_fields progress_line_def getFeedBack_def del: crun.simps)
  have 3: "snd (step (Some [''(move r2d2 wp4 wp1)'']) True (return_ended 1 False)) =
       [Cout [], GetPlan (problem_expert (return_ended 1 False)),
        StartPlanExecution [''(move r2d2 wp4 wp1)'']]"
    and 4: "state (fst (step (Some [''(move r2d2 wp4 wp1)'']) True (return_ended 1 False))) = GO_BACK"
    using b g [of False]
    by (simp_all add: return_ended_fields progress_line_def getFeedBack_def failed_lines_def
          del: crun.simps)
  show ?thesis
    using 1 2 3 4 return_ended_fields(1) by blast
qed







lemma start_flight:
  "in_flight (fst (start_plan_execution accepted plan e)) \<le> in_flight e + 1"
  by (simp add: start_plan_execution_def)

lemma step_flight_inv:
  assumes "in_flight (executor_client c) \<le> 1"
    and "state c = STARTING \<longrightarrow> in_flight (executor_client c) = 0"
  shows "in_flight (executor_client (fst (step plan_reply accepted c))) \<le> 1
       \<and> (state (fst (step plan_reply accepted c)) = STARTING \<longrightarrow>
            in_flight (executor_client (fst (step plan_reply accepted c))) = 0)"
proof (cases "state c")
  case STARTING
  with assms show ?thesis
    by (auto simp: step_def plan_and_start_def start_plan_execution_def
          split: option.splits prod.splits if_splits)
next
  case PATROL_FINISHED
  with assms show ?thesis
    by (auto simp: step_def plan_and_start_def replan_def start_plan_execution_def
          execute_and_check_plan_def
          split: option.splits prod.splits if_splits)
next
  case GO_BACK
  with assms show ?thesis
    by (auto simp: step_def replan_def start_plan_execution_def execute_and_check_plan_def
          split: option.splits prod.splits if_splits)
qed

lemma creact_flight_inv:
  assumes "in_flight (executor_client c) \<le> 1"
    and "state c = STARTING \<longrightarrow> in_flight (executor_client c) = 0"
  shows "in_flight (executor_client (fst (creact c i))) \<le> 1
       \<and> (state (fst (creact c i)) = STARTING \<longrightarrow>
            in_flight (executor_client (fst (creact c i))) = 0)"
proof (cases i)
  case (Step plan_reply accepted)
  then show ?thesis using step_flight_inv [OF assms] by simp
next
  case (Selector v)
  then show ?thesis using assms by (simp add: subscriberCallback_def)
next
  case (PlanEnds r)
  then show ?thesis using assms by (auto simp: plan_ends_def)
next
  case (EngineFeedback fb)
  then show ?thesis using assms by simp
qed

lemma crun_flight_inv:
  "in_flight (executor_client c) \<le> 1 \<Longrightarrow>
   (state c = STARTING \<longrightarrow> in_flight (executor_client c) = 0) \<Longrightarrow>
   in_flight (executor_client (fst (crun c inputs))) \<le> 1
     \<and> (state (fst (crun c inputs)) = STARTING \<longrightarrow>
          in_flight (executor_client (fst (crun c inputs))) = 0)"
proof (induction inputs arbitrary: c)
  case Nil
  then show ?case by simp
next
  case (Cons i rest)
  have "in_flight (executor_client (fst (creact c i))) \<le> 1
       \<and> (state (fst (creact c i)) = STARTING \<longrightarrow>
            in_flight (executor_client (fst (creact c i))) = 0)"
    using Cons.prems by (rule creact_flight_inv)
  then have "in_flight (executor_client (fst (crun (fst (creact c i)) rest))) \<le> 1
     \<and> (state (fst (crun (fst (creact c i)) rest)) = STARTING \<longrightarrow>
          in_flight (executor_client (fst (crun (fst (creact c i)) rest))) = 0)"
    using Cons.IH [of "fst (creact c i)"] by blast
  then show ?case unfolding crun_Cons_fst .
qed

lemma step_start_guarded:
  assumes "state c = STARTING \<longrightarrow> in_flight (executor_client c) = 0"
    and "StartPlanExecution plan \<in> set (snd (step plan_reply accepted c))"
  shows "\<not> execute_and_check_plan (executor_client c)"
proof (cases "state c")
  case STARTING
  with assms(1) show ?thesis by (simp add: execute_and_check_plan_def)
next
  case PATROL_FINISHED
  show ?thesis
  proof
    assume "execute_and_check_plan (executor_client c)"
    then have "snd (step plan_reply accepted c) = [progress_line (getFeedBack (executor_client c))]"
      using PATROL_FINISHED by (simp add: step_def)
    with assms(2) show False by (simp add: progress_line_def)
  qed
next
  case GO_BACK
  show ?thesis
  proof
    assume "execute_and_check_plan (executor_client c)"
    then have "snd (step plan_reply accepted c) = [progress_line (getFeedBack (executor_client c))]"
      using GO_BACK by (simp add: step_def)
    with assms(2) show False by (simp add: progress_line_def)
  qed
qed

text \<open>
  C6. Start the controller on an engine with no plan in flight and let anything happen
  (ticks with any answers of planner and engine, selector messages, plans ending,
  feedback). In the state reached at most one plan is in flight, and a tick that calls
  \<^verbatim>\<open>start_plan_execution\<close> is a tick at whose start the engine is not executing.
\<close>

theorem one_plan_in_flight:
  assumes "in_flight e = 0"
  shows "in_flight (executor_client (fst (crun (init p e) inputs))) \<le> 1
       \<and> (\<forall>plan_reply accepted plan.
            StartPlanExecution plan
              \<in> set (snd (step plan_reply accepted (fst (crun (init p e) inputs)))) \<longrightarrow>
            \<not> execute_and_check_plan (executor_client (fst (crun (init p e) inputs))))"
proof -
  have "in_flight (executor_client (init p e)) \<le> 1"
    and "state (init p e) = STARTING \<longrightarrow> in_flight (executor_client (init p e)) = 0"
    using assms by (simp_all add: init_def)
  then have inv: "in_flight (executor_client (fst (crun (init p e) inputs))) \<le> 1
     \<and> (state (fst (crun (init p e) inputs)) = STARTING \<longrightarrow>
          in_flight (executor_client (fst (crun (init p e) inputs))) = 0)"
    by (rule crun_flight_inv)
  then show ?thesis using step_start_guarded by blast
qed

text \<open>
  The first tick submits the patrol plan on an idle engine; one plan is in flight after
  it, and the next tick submits nothing.
\<close>

theorem one_plan_in_flight_witness:
  "in_flight idle_Executor = 0
   \<and> StartPlanExecution [''(move r2d2 wp_control wp1)'']
       \<in> set (snd (step (Some [''(move r2d2 wp_control wp1)'']) True
                 (fst (crun (init empty_Problem idle_Executor) []))))
   \<and> \<not> execute_and_check_plan (executor_client (fst (crun (init empty_Problem idle_Executor) [])))
   \<and> in_flight (executor_client (fst (crun (init empty_Problem idle_Executor)
        [Step (Some [''(move r2d2 wp_control wp1)'']) True, Step None False]))) = 1"
proof -
  have z: "in_flight idle_Executor = 0" by (simp add: idle_Executor_def)
  have s: "StartPlanExecution [''(move r2d2 wp_control wp1)'']
       \<in> set (snd (step (Some [''(move r2d2 wp_control wp1)'']) True
                 (fst (crun (init empty_Problem idle_Executor) []))))"
    by (simp add: init_def step_def plan_and_start_def start_plan_execution_def)
  have n: "in_flight (executor_client (fst (crun (init empty_Problem idle_Executor)
        [Step (Some [''(move r2d2 wp_control wp1)'']) True, Step None False]))) = 1"
    by (simp add: init_def step_def plan_and_start_def start_plan_execution_def idle_Executor_def
          execute_and_check_plan_def)
  show ?thesis
    using one_plan_in_flight [OF z, of empty_Problem "[]"] z s n by blast
qed

end
